theory Spec2Isabelle
  imports Main
begin

section \<open>Payment ledger of the BrainiHi backend (payments.entity.ts, payments.service.ts)\<close>

text \<open>
  The development embeds the \<^verbatim>\<open>Payment\<close> entity, the part of the TypeORM/PostgreSQL store the
  service relies on (primary key, the unique indexes declared on the entity, lookups with
  \<^verbatim>\<open>ORDER BY created_at DESC LIMIT 1\<close>), and the operations of \<^verbatim>\<open>PaymentsService\<close>
  (the later of the two versions of payments.service.ts in the repository).

  Conventions of the embedding:
  \<^item> a \<^verbatim>\<open>Date\<close> is its \<^verbatim>\<open>getTime()\<close> value, an \<open>int\<close> of milliseconds since the epoch; the
    server clock \<^verbatim>\<open>new Date()\<close> is the argument \<open>now\<close> of every operation; calendar
    arithmetic is done in UTC;
  \<^item> a nullable column or an optional JSON field is an \<open>option\<close>; a JavaScript value is
    falsy when it is \<open>None\<close>, the empty string or the number 0;
  \<^item> an amount is an \<open>int\<close> of cents (the column is \<^verbatim>\<open>numeric(12,2)\<close>);
  \<^item> an exception is the \<open>Inl\<close> of a sum; a statement of the database either takes effect
    or raises and leaves the tables as they were.
\<close>

subsection \<open>Strings and dates of the JavaScript runtime\<close>

type_synonym time = int

text \<open>\<^verbatim>\<open>String.prototype.toLowerCase\<close> on the ASCII letters.\<close>

definition lower_char :: "char \<Rightarrow> char" where
  "lower_char c =
     (if c = CHR ''A'' then CHR ''a'' else if c = CHR ''B'' then CHR ''b''
      else if c = CHR ''C'' then CHR ''c'' else if c = CHR ''D'' then CHR ''d''
      else if c = CHR ''E'' then CHR ''e'' else if c = CHR ''F'' then CHR ''f''
      else if c = CHR ''G'' then CHR ''g'' else if c = CHR ''H'' then CHR ''h''
      else if c = CHR ''I'' then CHR ''i'' else if c = CHR ''J'' then CHR ''j''
      else if c = CHR ''K'' then CHR ''k'' else if c = CHR ''L'' then CHR ''l''
      else if c = CHR ''M'' then CHR ''m'' else if c = CHR ''N'' then CHR ''n''
      else if c = CHR ''O'' then CHR ''o'' else if c = CHR ''P'' then CHR ''p''
      else if c = CHR ''Q'' then CHR ''q'' else if c = CHR ''R'' then CHR ''r''
      else if c = CHR ''S'' then CHR ''s'' else if c = CHR ''T'' then CHR ''t''
      else if c = CHR ''U'' then CHR ''u'' else if c = CHR ''V'' then CHR ''v''
      else if c = CHR ''W'' then CHR ''w'' else if c = CHR ''X'' then CHR ''x''
      else if c = CHR ''Y'' then CHR ''y'' else if c = CHR ''Z'' then CHR ''z''
      else c)"

definition toLowerCase :: "string \<Rightarrow> string" where
  "toLowerCase s = map lower_char s"

text \<open>Truthiness of a nullable string and of a nullable number.\<close>

fun truthy_str :: "string option \<Rightarrow> bool" where
  "truthy_str None = False"
| "truthy_str (Some s) = (s \<noteq> [])"

fun truthy_num :: "nat option \<Rightarrow> bool" where
  "truthy_num None = False"
| "truthy_num (Some n) = (n \<noteq> 0)"

text \<open>\<^verbatim>\<open>a ?? b\<close>: the left operand unless it is null or undefined.\<close>

fun nullish :: "'a option \<Rightarrow> 'a option \<Rightarrow> 'a option" where
  "nullish None b = b"
| "nullish (Some a) b = Some a"

text \<open>\<^verbatim>\<open>a || b\<close> on nullable strings: the left operand unless it is falsy.\<close>

definition or_str :: "string option \<Rightarrow> string option \<Rightarrow> string option" where
  "or_str a b = (if truthy_str a then a else b)"

text \<open>\<^verbatim>\<open>String(s).trim() === ""\<close> on ASCII white space.\<close>

definition is_space :: "char \<Rightarrow> bool" where
  "is_space c = (c = CHR '' '' \<or> c = CHR 0x09 \<or> c = CHR 0x0A \<or> c = CHR 0x0B
                 \<or> c = CHR 0x0C \<or> c = CHR 0x0D)"

fun blank :: "string \<Rightarrow> bool" where
  "blank [] = True"
| "blank (c # cs) = (is_space c \<and> blank cs)"

text \<open>
  A timestamp string supplied by a client: \<^verbatim>\<open>new Date(s)\<close> is either an instant or an
  Invalid Date (\<^verbatim>\<open>isNaN(d.getTime())\<close>).
\<close>

datatype date_str = InvalidDate | ISODate time

fun parse_date :: "date_str option \<Rightarrow> time option" where
  "parse_date None = None"
| "parse_date (Some InvalidDate) = None"
| "parse_date (Some (ISODate t)) = Some t"

text \<open>\<^verbatim>\<open>d.setSeconds(0, 0)\<close>: the start of the minute.\<close>

definition minuteBucketOf :: "time \<Rightarrow> time" where
  "minuteBucketOf t = t - t mod 60000"

text \<open>
  The proleptic Gregorian calendar, days counted from 1970-01-01, for
  \<^verbatim>\<open>setFullYear(getFullYear() + 1)\<close>.
\<close>

definition days_from_civil :: "int \<Rightarrow> int \<Rightarrow> int \<Rightarrow> int" where
  "days_from_civil y m d =
     (let y' = (if m \<le> 2 then y - 1 else y);
          era = y' div 400;
          yoe = y' - era * 400;
          mp = (m + 9) mod 12;
          doy = (153 * mp + 2) div 5 + d - 1;
          doe = yoe * 365 + yoe div 4 - yoe div 100 + doy
      in era * 146097 + doe - 719468)"

definition civil_from_days :: "int \<Rightarrow> int \<times> int \<times> int" where
  "civil_from_days z0 =
     (let z = z0 + 719468;
          era = z div 146097;
          doe = z - era * 146097;
          yoe = (doe - doe div 1460 + doe div 36524 - doe div 146096) div 365;
          doy = doe - (365 * yoe + yoe div 4 - yoe div 100);
          mp = (5 * doy + 2) div 153;
          d = doy - (153 * mp + 2) div 5 + 1;
          m = (if mp < 10 then mp + 3 else mp - 9);
          y = yoe + era * 400
      in (if m \<le> 2 then y + 1 else y, m, d))"

definition msPerDay :: int where
  "msPerDay = 86400000"

text \<open>\<^verbatim>\<open>now.setDate(now.getDate() + 30)\<close>\<close>

definition addDays30 :: "time \<Rightarrow> time" where
  "addDays30 t = t + 30 * msPerDay"

text \<open>\<^verbatim>\<open>now.setFullYear(now.getFullYear() + 1)\<close>; 29 February rolls over to 1 March.\<close>

definition addYear :: "time \<Rightarrow> time" where
  "addYear t =
     (case civil_from_days (t div msPerDay) of
        (y, m, d) \<Rightarrow> days_from_civil (y + 1) m d * msPerDay + t mod msPerDay)"

subsection \<open>JSON documents of the gateway and of the clients\<close>

text \<open>
  The order document returned by \<^verbatim>\<open>captureOrderOnPayPal\<close> and \<^verbatim>\<open>getOrderOnPayPal\<close>,
  reduced to the fields the service reads. \<open>o_capture\<close> is
  \<^verbatim>\<open>purchase_units[0].payments.captures[0]\<close>, \<open>o_pu_amount_value\<close> is
  \<^verbatim>\<open>purchase_units[0].amount.value\<close>, \<open>o_amount_value\<close> is \<^verbatim>\<open>amount.value\<close>.
  The gateway writes its timestamps in ISO 8601, so they are instants.
\<close>

record capture_json =
  cap_id :: "string option"
  cap_status :: "string option"
  cap_amount_value :: "int option"
  cap_currency_code :: "string option"
  cap_create_time :: "time option"

record order_json =
  o_status :: "string option"
  o_capture :: "capture_json option"
  o_pu_amount_value :: "int option"
  o_pu_currency_code :: "string option"
  o_reference_id :: "string option"
  o_invoice_id :: "string option"
  o_meta_client_temp_id :: "string option"
  o_raw_meta_client_temp_id :: "string option"
  o_amount_value :: "int option"
  o_payer_email :: "string option"
  o_payer_given_name :: "string option"
  o_payer_surname :: "string option"
  o_create_time :: "time option"
  o_update_time :: "time option"

text \<open>
  The webhook envelope: \<open>r_related_order_id\<close> is
  \<^verbatim>\<open>resource.supplementary_data.related_ids.order_id\<close>; \<open>r_status\<close> and
  \<open>r_amount_value\<close> are the status and the amount the notification itself carries.
\<close>

record resource_json =
  r_id :: "string option"
  r_order_id :: "string option"
  r_related_order_id :: "string option"
  r_status :: "string option"
  r_amount_value :: "int option"

record webhook_event =
  event_type :: "string option"
  ev_type :: "string option"
  resource :: "resource_json option"

text \<open>The \<^verbatim>\<open>__meta\<close> object the service keeps inside the \<^verbatim>\<open>raw\<close> column.\<close>

record meta_json =
  m_reason :: "string option"
  m_change_to :: "string option"
  m_client_temp_id :: "string option"
  m_createdAt :: "date_str option"
  m_created_at :: "date_str option"

datatype raw_json =
    RawNull
  | RawMeta meta_json
  | RawOrder order_json
  | RawEvent webhook_event

fun raw_meta :: "raw_json \<Rightarrow> meta_json option" where
  "raw_meta (RawMeta m) = Some m"
| "raw_meta _ = None"

subsection \<open>The entities\<close>

text \<open>
  \<^verbatim>\<open>class Payment\<close> of payments.entity.ts, column by column (\<open>payment_id\<close> is the column
  \<^verbatim>\<open>id\<close>).
\<close>

record Payment =
  payment_id :: nat
  user_id :: "nat option"
  plan :: "string option"
  billingPeriod :: "string option"
  amount :: int
  currency :: string
  paypalOrderId :: "string option"
  paypalCaptureId :: "string option"
  status :: string
  payerEmail :: "string option"
  payerName :: "string option"
  reason :: "string option"
  change_to :: "string option"
  idempotencyKey :: "string option"
  clientTempId :: "string option"
  raw :: raw_json
  createdAtMinute :: "time option"
  createdAt :: time
  updatedAt :: time

text \<open>The columns of the \<^verbatim>\<open>User\<close> entity the service reads and writes.\<close>

record User =
  u_plan :: "string option"
  u_plan_expiry :: "time option"

text \<open>The database: the payments table in insertion order, the users by id, the id sequence.\<close>

record db =
  payments :: "Payment list"
  users :: "nat \<rightharpoonup> User"
  next_id :: nat

subsection \<open>Exceptions\<close>

text \<open>
  The exceptions of \<^verbatim>\<open>@nestjs/common\<close> by name, the driver's \<^verbatim>\<open>QueryFailedError\<close> with its
  PostgreSQL code, a failed gateway call and a plain \<^verbatim>\<open>Error\<close>. The service imports and throws
  neither \<^verbatim>\<open>ConflictException\<close> nor any other 409 response; the constructor is here to
  say so.
\<close>

datatype error =
    BadRequestException string
  | NotFoundException string
  | ForbiddenException string
  | ConflictException string
  | HttpException nat string
  | QueryFailedError string
  | GatewayError
  | Error string

text \<open>Is the outcome a \<^verbatim>\<open>ConflictException\<close>?\<close>

fun conflict_error :: "error + 'a \<Rightarrow> bool" where
  "conflict_error (Inl (ConflictException m)) = True"
| "conflict_error _ = False"

subsection \<open>The store\<close>

definition pendingStatuses :: "string list" where
  "pendingStatuses = [''pending'', ''created'', ''pending_capture'', ''authorized'']"

text \<open>
  The unique indexes of the entity: \<^verbatim>\<open>ux_payments_paypal_order_id\<close>,
  \<^verbatim>\<open>ux_payments_paypal_capture_id\<close> and \<^verbatim>\<open>ux_payments_user_plan_minute\<close> on
  \<^verbatim>\<open>(user_id, plan, billingPeriod, createdAtMinute)\<close>. \<^verbatim>\<open>ux_payments_client_temp_id\<close> is declared
  \<^verbatim>\<open>unique: false\<close> and constrains nothing. In a PostgreSQL unique index NULLs are
  distinct: a key with a NULL component collides with no other key.
\<close>

definition same_order_id :: "Payment \<Rightarrow> Payment \<Rightarrow> bool" where
  "same_order_id p q = (paypalOrderId p \<noteq> None \<and> paypalOrderId p = paypalOrderId q)"

definition same_capture_id :: "Payment \<Rightarrow> Payment \<Rightarrow> bool" where
  "same_capture_id p q = (paypalCaptureId p \<noteq> None \<and> paypalCaptureId p = paypalCaptureId q)"

definition same_user_plan_minute :: "Payment \<Rightarrow> Payment \<Rightarrow> bool" where
  "same_user_plan_minute p q =
     (user_id p \<noteq> None \<and> plan p \<noteq> None \<and> billingPeriod p \<noteq> None \<and> createdAtMinute p \<noteq> None
      \<and> user_id p = user_id q \<and> plan p = plan q \<and> billingPeriod p = billingPeriod q
      \<and> createdAtMinute p = createdAtMinute q)"

definition collides :: "Payment \<Rightarrow> Payment \<Rightarrow> bool" where
  "collides p q = (same_order_id p q \<or> same_capture_id p q \<or> same_user_plan_minute p q)"

text \<open>Does writing \<open>p\<close> violate a unique index against a row with another id?\<close>

definition unique_violation :: "Payment list \<Rightarrow> Payment \<Rightarrow> bool" where
  "unique_violation ps p =
     list_ex (\<lambda>q. payment_id q \<noteq> payment_id p \<and> collides p q) ps"

definition pgUniqueViolationCode :: string where
  "pgUniqueViolationCode = ''23505''"

text \<open>
  The column types of the entity: \<^verbatim>\<open>amount\<close> is \<^verbatim>\<open>numeric(12,2)\<close>, at most 9999999999.99
  in absolute value, and every \<^verbatim>\<open>varchar(n)\<close> column holds at most \<open>n\<close> characters.
\<close>

fun within :: "nat \<Rightarrow> string option \<Rightarrow> bool" where
  "within n None = True"
| "within n (Some s) = (length s \<le> n)"

definition amount_fits :: "Payment \<Rightarrow> bool" where
  "amount_fits p = (- 999999999999 \<le> amount p \<and> amount p \<le> 999999999999)"

definition strings_fit :: "Payment \<Rightarrow> bool" where
  "strings_fit p =
     (within 64 (plan p) \<and> within 32 (billingPeriod p) \<and> length (currency p) \<le> 8
      \<and> within 128 (paypalOrderId p) \<and> within 128 (paypalCaptureId p)
      \<and> length (status p) \<le> 32 \<and> within 256 (payerEmail p) \<and> within 256 (payerName p)
      \<and> within 40 (reason p) \<and> within 64 (change_to p) \<and> within 128 (idempotencyKey p)
      \<and> within 128 (clientTempId p))"

text \<open>
  \<^verbatim>\<open>INSERT INTO payments ... RETURNING *\<close>: the row gets the next id of the sequence. A
  value that does not fit its column raises error 22003 (numeric overflow) or 22001 (string
  too long), a unique violation raises error 23505; in each case nothing is inserted.
\<close>

definition insert_row :: "Payment \<Rightarrow> db \<Rightarrow> error + (Payment \<times> db)" where
  "insert_row p d =
     (let p' = p\<lparr>payment_id := next_id d\<rparr>
      in if \<not> amount_fits p' then Inl (QueryFailedError ''22003'')
         else if \<not> strings_fit p' then Inl (QueryFailedError ''22001'')
         else if unique_violation (payments d) p' then Inl (QueryFailedError pgUniqueViolationCode)
         else Inr (p', d\<lparr>payments := payments d @ [p'], next_id := Suc (next_id d)\<rparr>))"

text \<open>\<^verbatim>\<open>paymentRepo.save(p)\<close> of a loaded entity: an UPDATE of the row with its id.\<close>

definition save_row :: "Payment \<Rightarrow> db \<Rightarrow> error + (Payment \<times> db)" where
  "save_row p d =
     (if unique_violation (payments d) p then Inl (QueryFailedError pgUniqueViolationCode)
      else Inr (p, d\<lparr>payments :=
                  map (\<lambda>q. if payment_id q = payment_id p then p else q) (payments d)\<rparr>))"

text \<open>\<^verbatim>\<open>findOne({ where })\<close> and \<^verbatim>\<open>getOne()\<close> without an order: the first row that matches.\<close>

definition findOne :: "(Payment \<Rightarrow> bool) \<Rightarrow> db \<Rightarrow> Payment option" where
  "findOne P d = find P (payments d)"

text \<open>
  \<^verbatim>\<open>ORDER BY created_at DESC LIMIT 1\<close>: a row with the greatest \<^verbatim>\<open>created_at\<close>. SQL leaves the
  choice among equal timestamps open; here the earlier inserted row wins.
\<close>

fun most_recent :: "Payment list \<Rightarrow> Payment option" where
  "most_recent [] = None"
| "most_recent (p # ps) =
     (case most_recent ps of
        None \<Rightarrow> Some p
      | Some q \<Rightarrow> if createdAt p < createdAt q then Some q else Some p)"

definition findLatest :: "(Payment \<Rightarrow> bool) \<Rightarrow> db \<Rightarrow> Payment option" where
  "findLatest P d = most_recent (filter P (payments d))"

text \<open>\<^verbatim>\<open>userRepo.save(user)\<close>\<close>

definition save_user :: "nat \<Rightarrow> User \<Rightarrow> db \<Rightarrow> db" where
  "save_user uid u d = d\<lparr>users := (users d)(uid \<mapsto> u)\<rparr>"

subsection \<open>Helpers of the service\<close>

text \<open>\<^verbatim>\<open>ensureValidUserId\<close>: 0 and NaN are rejected.\<close>

definition ensureValidUserId :: "nat \<Rightarrow> error + nat" where
  "ensureValidUserId userId =
     (if userId = 0 then Inl (BadRequestException ''Invalid user id'') else Inr userId)"

text \<open>\<^verbatim>\<open>mapPlanPrice\<close>, in cents; every price is in USD.\<close>

definition mapPlanPrice :: "string \<Rightarrow> string option \<Rightarrow> int" where
  "mapPlanPrice pl bp =
     (let p = toLowerCase (if pl = [] then ''Pro'' else pl)
      in if p = ''pro'' then (if bp = Some ''yearly'' then 9900 else 1299)
         else if p = ''tutor'' then (if bp = Some ''yearly'' then 19900 else 2499)
         else 0)"

text \<open>
  The plan grant written after a capture: the plan of the payment, else of the user, else
  Pro; the expiry from the billing period of the payment, monthly when it has none.
\<close>

definition grant_plan :: "time \<Rightarrow> Payment \<Rightarrow> User \<Rightarrow> User" where
  "grant_plan now p u =
     (let planName = or_str (or_str (plan p) (u_plan u)) (Some ''Pro'');
          billing = or_str (billingPeriod p) (Some ''monthly'')
      in u\<lparr>u_plan := planName,
            u_plan_expiry :=
              (if billing = Some ''monthly'' then Some (addDays30 now)
               else if billing = Some ''yearly'' then Some (addYear now)
               else None)\<rparr>)"

subsection \<open>Access projection: \<^verbatim>\<open>getAccessInfo\<close>\<close>

text \<open>
  \<^verbatim>\<open>interface AccessInfo\<close>. \<open>pendingAmount\<close> keeps the amount and the currency of the latest
  pending row, which the service prints as \<^verbatim>\<open>"12.99 USD"\<close>.
\<close>

record AccessInfo =
  allowed :: bool
  activeSubscription :: bool
  hasSuccessfulPayment :: bool
  ai_plan :: "string option"
  ai_plan_expiry :: "time option"
  ai_reason :: "string option"
  pendingAmount :: "(int \<times> string) option"

definition allowedStatuses :: "string list" where
  "allowedStatuses = [''completed'', ''captured'', ''succeeded'', ''success'', ''paid'']"

definition denied_access :: "string \<Rightarrow> AccessInfo" where
  "denied_access why =
     \<lparr>allowed = False, activeSubscription = False, hasSuccessfulPayment = False,
      ai_plan = None, ai_plan_expiry = None, ai_reason = Some why, pendingAmount = None\<rparr>"

definition getAccessInfo :: "time \<Rightarrow> nat \<Rightarrow> db \<Rightarrow> AccessInfo" where
  "getAccessInfo now userId d =
     (if userId = 0 then denied_access ''invalid_user''
      else case users d userId of
        None \<Rightarrow> denied_access ''user_not_found''
      | Some user \<Rightarrow>
          (let pl = (case u_plan user of None \<Rightarrow> ''Free'' | Some p \<Rightarrow> p);
               active = (case u_plan_expiry user of None \<Rightarrow> False | Some expiry \<Rightarrow> now < expiry);
               found = findLatest (\<lambda>p. user_id p = Some userId \<and> status p \<in> set allowedStatuses) d;
               hasPaid = (found \<noteq> None);
               pending = findLatest (\<lambda>p. user_id p = Some userId \<and> status p \<in> set pendingStatuses) d
           in \<lparr>allowed = (if toLowerCase pl = ''free'' then True else (active \<or> hasPaid)),
               activeSubscription = active,
               hasSuccessfulPayment = hasPaid,
               ai_plan = Some pl,
               ai_plan_expiry = u_plan_expiry user,
               ai_reason = None,
               pendingAmount = map_option (\<lambda>p. (amount p, currency p)) pending\<rparr>))"

text \<open>
  A row with the column defaults of the entity (amount 0.00, currency USD, status pending,
  every nullable column NULL), the starting point of every INSERT below and of the sample
  states.
\<close>

definition default_row :: Payment where
  "default_row =
     \<lparr>payment_id = 0, user_id = None, plan = None, billingPeriod = None, amount = 0,
      currency = ''USD'', paypalOrderId = None, paypalCaptureId = None, status = ''pending'',
      payerEmail = None, payerName = None, reason = None, change_to = None,
      idempotencyKey = None, clientTempId = None, raw = RawNull, createdAtMinute = None,
      createdAt = 0, updatedAt = 0\<rparr>"

text \<open>
  \<^verbatim>\<open>createQueryBuilder().insert().into("payments").values(insertObj).returning("*")\<close>.
  The table name resolves to the \<^verbatim>\<open>Payment\<close> entity, and the insert reads the value of each
  column from the object by the name of the entity's property. The service builds its insert
  objects with the names of the columns instead. Of their keys only \<^verbatim>\<open>user_id\<close>,
  \<^verbatim>\<open>plan\<close>, \<^verbatim>\<open>amount\<close>, \<^verbatim>\<open>currency\<close>, \<^verbatim>\<open>status\<close> and \<^verbatim>\<open>raw\<close> are property names; the keys
  \<^verbatim>\<open>billing_period\<close>, \<^verbatim>\<open>paypal_order_id\<close>, \<^verbatim>\<open>paypal_capture_id\<close>, \<^verbatim>\<open>payer_email\<close>,
  \<^verbatim>\<open>payer_name\<close>, \<^verbatim>\<open>idempotency_key\<close>, \<^verbatim>\<open>client_temp_id\<close>, \<^verbatim>\<open>created_at_minute\<close>,
  \<^verbatim>\<open>created_at\<close> and \<^verbatim>\<open>updated_at\<close> name no property, so the insert takes no value from
  them: those columns get their defaults, NULL, and for \<^verbatim>\<open>created_at\<close> and \<^verbatim>\<open>updated_at\<close>
  the clock of the database. In the insert objects below a field stands for the key the code
  writes under the column's name; \<open>entity_values\<close> is what the insert stores of such an
  object.
\<close>

definition entity_values :: "time \<Rightarrow> Payment \<Rightarrow> Payment" where
  "entity_values now insertObj =
     default_row\<lparr>user_id := user_id insertObj, plan := plan insertObj,
                 amount := amount insertObj, currency := currency insertObj,
                 status := status insertObj, raw := raw insertObj,
                 createdAt := now, updatedAt := now\<rparr>"

definition qb_insert :: "time \<Rightarrow> Payment \<Rightarrow> db \<Rightarrow> error + (Payment \<times> db)" where
  "qb_insert now insertObj d = insert_row (entity_values now insertObj) d"

subsection \<open>Invoices: \<^verbatim>\<open>invoiceShapeFromRow\<close>, \<^verbatim>\<open>findExistingPending\<close>\<close>

text \<open>\<^verbatim>\<open>interface InvoiceDTO\<close>; \<^verbatim>\<open>receipt_url\<close> is \<^verbatim>\<open>/receipt/\<close> followed by the id.\<close>

record InvoiceDTO =
  inv_id :: nat
  inv_date :: time
  inv_amount :: int
  inv_currency :: string
  inv_status :: string
  inv_reason :: "string option"
  inv_change_to :: "string option"
  inv_plan :: "string option"
  inv_raw :: raw_json

definition invoiceShapeFromRow :: "Payment \<Rightarrow> InvoiceDTO" where
  "invoiceShapeFromRow row =
     \<lparr>inv_id = payment_id row, inv_date = createdAt row, inv_amount = amount row,
      inv_currency = currency row, inv_status = status row,
      inv_reason = nullish (reason row)
                     (case raw_meta (raw row) of None \<Rightarrow> None | Some m \<Rightarrow> m_reason m),
      inv_change_to = nullish (change_to row)
                     (case raw_meta (raw row) of None \<Rightarrow> None | Some m \<Rightarrow> m_change_to m),
      inv_plan = plan row, inv_raw = raw row\<rparr>"

text \<open>
  The WHERE clause shared by \<^verbatim>\<open>findExistingPending\<close> and the duplicate handler of
  \<^verbatim>\<open>createPendingPayment\<close>: \<^verbatim>\<open>COALESCE(p.user_id, 0) = COALESCE(:uid, 0)\<close>, the plan, the
  minute bucket, and the billing period (\<^verbatim>\<open>IS NULL\<close> for the empty string).
\<close>

definition bucket_where :: "nat \<Rightarrow> string \<Rightarrow> string \<Rightarrow> time \<Rightarrow> Payment \<Rightarrow> bool" where
  "bucket_where uid planName billing minute p =
     ((case user_id p of None \<Rightarrow> 0 | Some u \<Rightarrow> u) = uid
      \<and> plan p = Some planName
      \<and> createdAtMinute p = Some minute
      \<and> (if billing = [] then billingPeriod p = None else billingPeriod p = Some billing))"

definition findExistingPending ::
  "time \<Rightarrow> nat \<Rightarrow> string option \<Rightarrow> string option \<Rightarrow> date_str option \<Rightarrow> db
     \<Rightarrow> error + InvoiceDTO option" where
  "findExistingPending now userId pl billingPeriod' createdAt' d =
     (case ensureValidUserId userId of
        Inl e \<Rightarrow> Inl e
      | Inr uid \<Rightarrow>
          (let planName = (case pl of None \<Rightarrow> ''Pro'' | Some p \<Rightarrow> p);
               billing = (case billingPeriod' of None \<Rightarrow> ''monthly'' | Some b \<Rightarrow> b);
               created = (case parse_date createdAt' of None \<Rightarrow> now | Some t \<Rightarrow> t);
               minuteBucket = minuteBucketOf created
           in Inr (map_option invoiceShapeFromRow
                    (findLatest (\<lambda>p. bucket_where uid planName billing minuteBucket p
                                      \<and> status p \<in> set pendingStatuses) d))))"

subsection \<open>\<^verbatim>\<open>createPendingPayment\<close>\<close>

text \<open>
  \<^verbatim>\<open>INSERT ... ON CONFLICT (client_temp_id) DO UPDATE SET updated_at = EXCLUDED.updated_at\<close>.
  PostgreSQL needs a unique index or constraint on \<^verbatim>\<open>client_temp_id\<close> to arbitrate the
  conflict; the entity declares \<^verbatim>\<open>ux_payments_client_temp_id\<close> with \<^verbatim>\<open>unique: false\<close>, so the
  statement is rejected (error 42P10) whatever the row. The service catches the error, logs
  it and goes on to the plain insert.
\<close>

definition upsert_by_client_temp_id :: "Payment \<Rightarrow> db \<Rightarrow> error + (Payment \<times> db)" where
  "upsert_by_client_temp_id p d = Inl (QueryFailedError ''42P10'')"

text \<open>The request of one call: the arguments of \<^verbatim>\<open>createPendingPayment\<close> and its clock.\<close>

record pending_request =
  rq_now :: time
  rq_userId :: nat
  rq_plan :: "string option"
  rq_billingPeriod :: "string option"
  rq_amount :: "int option"
  rq_clientTempId :: "string option"
  rq_createdAt :: "date_str option"
  rq_reason :: "string option"

definition rq_planName :: "pending_request \<Rightarrow> string" where
  "rq_planName rq = (case rq_plan rq of None \<Rightarrow> ''Pro'' | Some p \<Rightarrow> p)"

definition rq_billing :: "pending_request \<Rightarrow> string" where
  "rq_billing rq = (case rq_billingPeriod rq of None \<Rightarrow> ''monthly'' | Some b \<Rightarrow> b)"

text \<open>\<^verbatim>\<open>createdAtDate\<close>: the client's \<^verbatim>\<open>createdAt\<close> when it parses, the server clock otherwise.\<close>

definition rq_created :: "pending_request \<Rightarrow> time" where
  "rq_created rq = (case parse_date (rq_createdAt rq) of None \<Rightarrow> rq_now rq | Some t \<Rightarrow> t)"

definition rq_hasToken :: "pending_request \<Rightarrow> bool" where
  "rq_hasToken rq = (case rq_clientTempId rq of None \<Rightarrow> False | Some c \<Rightarrow> c \<noteq> [] \<and> \<not> blank c)"

text \<open>
  \<^verbatim>\<open>insertObj\<close>, key by key; a missing or blank \<^verbatim>\<open>amount\<close> (\<open>None\<close>) takes the price of
  the plan. It goes through the query-builder insert, which stores its \<open>entity_values\<close>.
\<close>

definition pending_insertObj :: "pending_request \<Rightarrow> Payment" where
  "pending_insertObj rq =
     default_row
       \<lparr>user_id := Some (rq_userId rq),
        plan := Some (rq_planName rq),
        billingPeriod := (if rq_billing rq = [] then None else Some (rq_billing rq)),
        amount := (case rq_amount rq of
                     Some a \<Rightarrow> a
                   | None \<Rightarrow> mapPlanPrice (rq_planName rq) (Some (rq_billing rq))),
        currency := ''USD'',
        status := ''pending'',
        idempotencyKey := None,
        clientTempId := rq_clientTempId rq,
        raw := RawMeta
                 \<lparr>m_reason = Some (case rq_reason rq of None \<Rightarrow> ''regular'' | Some r \<Rightarrow> r),
                  m_change_to = Some (rq_planName rq),
                  m_client_temp_id = (if rq_hasToken rq then rq_clientTempId rq else None),
                  m_createdAt = Some (ISODate (rq_created rq)),
                  m_created_at = Some (ISODate (rq_created rq))\<rparr>,
        createdAtMinute := Some (minuteBucketOf (rq_created rq)),
        createdAt := rq_created rq,
        updatedAt := rq_created rq\<rparr>"

text \<open>
  The function awaits the database several times, and other requests may write between two
  awaits. The embedding cuts it at the one place where that matters: \<open>pending_precheck\<close>
  is the part up to and including \<^verbatim>\<open>findExistingPending\<close> (a failed lookup counts as no
  row), \<open>pending_finish\<close> is the rest, run on the table as it is by then.
\<close>

definition pending_precheck :: "pending_request \<Rightarrow> db \<Rightarrow> InvoiceDTO option" where
  "pending_precheck rq d =
     (case findExistingPending (rq_now rq) (rq_userId rq) (Some (rq_planName rq))
             (Some (rq_billing rq)) (Some (ISODate (rq_created rq))) d of
        Inl e \<Rightarrow> None
      | Inr r \<Rightarrow> r)"

definition pending_finish ::
  "pending_request \<Rightarrow> InvoiceDTO option \<Rightarrow> db \<Rightarrow> (error + InvoiceDTO) \<times> db" where
  "pending_finish rq existing d =
     (case existing of
        Some e \<Rightarrow> (Inr e, d)
      | None \<Rightarrow>
         (case qb_insert (rq_now rq) (pending_insertObj rq) d of
            Inr (insertedRow, d') \<Rightarrow>
              (case findOne (\<lambda>p. payment_id p = payment_id insertedRow) d' of
                 Some persisted \<Rightarrow> (Inr (invoiceShapeFromRow persisted), d')
               | None \<Rightarrow> (Inr (invoiceShapeFromRow insertedRow), d'))
          | Inl err \<Rightarrow>
              (case (if err = QueryFailedError pgUniqueViolationCode
                     then findLatest
                            (\<lambda>p. bucket_where (rq_userId rq) (rq_planName rq) (rq_billing rq)
                                    (minuteBucketOf (rq_created rq)) p
                                  \<and> status p = ''pending'') d
                     else None) of
                 Some found \<Rightarrow> (Inr (invoiceShapeFromRow found), d)
               | None \<Rightarrow>
                  (case findLatest (\<lambda>p. user_id p = Some (rq_userId rq)
                                         \<and> plan p = Some (rq_planName rq)) d of
                     Some fallback \<Rightarrow> (Inr (invoiceShapeFromRow fallback), d)
                   | None \<Rightarrow>
                       (Inl (HttpException 500 ''Failed to create pending invoice''), d)))))"

text \<open>
  The whole call. \<open>snap\<close> is the table the pre-check reads, \<open>d\<close> the table the later
  statements meet; in a call that runs alone they are the same.
\<close>

definition createPendingPayment_at ::
  "db \<Rightarrow> pending_request \<Rightarrow> db \<Rightarrow> (error + InvoiceDTO) \<times> db" where
  "createPendingPayment_at snap rq d =
     (case ensureValidUserId (rq_userId rq) of
        Inl e \<Rightarrow> (Inl e, d)
      | Inr uid \<Rightarrow>
         (case (if rq_hasToken rq
                then (case upsert_by_client_temp_id (pending_insertObj rq) d of
                        Inl e \<Rightarrow> None
                      | Inr r \<Rightarrow> Some r)
                else None) of
            Some (row, d') \<Rightarrow> (Inr (invoiceShapeFromRow row), d')
          | None \<Rightarrow> pending_finish rq (pending_precheck rq snap) d))"

definition createPendingPayment :: "pending_request \<Rightarrow> db \<Rightarrow> (error + InvoiceDTO) \<times> db" where
  "createPendingPayment rq d = createPendingPayment_at d rq d"

subsection \<open>\<^verbatim>\<open>attachOrderToPayment\<close> and the controller's \<^verbatim>\<open>attachOrder\<close>\<close>

text \<open>
  When the \<^verbatim>\<open>raw\<close> document kept on the row carries \<^verbatim>\<open>__meta.createdAt\<close> (or
  \<^verbatim>\<open>created_at\<close>) and it parses, the row's \<^verbatim>\<open>createdAt\<close> and minute bucket are reset to it.
\<close>

definition adopt_meta_createdAt :: "Payment \<Rightarrow> Payment" where
  "adopt_meta_createdAt p =
     (case raw_meta (raw p) of
        None \<Rightarrow> p
      | Some m \<Rightarrow>
         (case parse_date (nullish (m_createdAt m) (m_created_at m)) of
            None \<Rightarrow> p
          | Some t \<Rightarrow>
              p\<lparr>createdAt := t, createdAtMinute := Some (minuteBucketOf t),
                raw := RawMeta (m\<lparr>m_createdAt := Some (ISODate t),
                                   m_created_at := Some (ISODate t)\<rparr>)\<rparr>))"

definition attachOrderToPayment ::
  "time \<Rightarrow> nat \<Rightarrow> nat \<Rightarrow> string \<Rightarrow> raw_json \<Rightarrow> db \<Rightarrow> (error + InvoiceDTO) \<times> db" where
  "attachOrderToPayment now userId paymentId orderID raw' d =
     (case ensureValidUserId userId of
        Inl e \<Rightarrow> (Inl e, d)
      | Inr uid \<Rightarrow>
          if paymentId = 0 then (Inl (BadRequestException ''Invalid paymentId''), d)
          else case findOne (\<lambda>p. payment_id p = paymentId) d of
            None \<Rightarrow> (Inl (NotFoundException ''Payment not found''), d)
          | Some p \<Rightarrow>
              if user_id p \<noteq> Some uid
              then (Inl (NotFoundException ''Payment not found for user''), d)
              else
                (let p1 = p\<lparr>paypalOrderId := Some orderID,
                            raw := (if raw' = RawNull then raw p else raw')\<rparr>;
                     p2 = adopt_meta_createdAt p1;
                     p3 = p2\<lparr>updatedAt := now\<rparr>
                 in case save_row p3 d of
                      Inl e \<Rightarrow> (Inl e, d)
                    | Inr (saved, d') \<Rightarrow> (Inr (invoiceShapeFromRow saved), d')))"

text \<open>
  \<^verbatim>\<open>PaymentsController.attachOrder\<close>: the user id of the token, the validation of the body,
  and the catch that turns every exception of the service into a 500.
\<close>

definition attachOrder ::
  "time \<Rightarrow> nat \<Rightarrow> nat \<Rightarrow> string option \<Rightarrow> raw_json \<Rightarrow> db \<Rightarrow> (error + InvoiceDTO) \<times> db" where
  "attachOrder now userId paymentId orderID raw' d =
     (if userId = 0 then (Inl (BadRequestException ''Invalid or missing user id''), d)
      else if paymentId = 0 then (Inl (BadRequestException ''Invalid paymentId''), d)
      else case orderID of
        None \<Rightarrow> (Inl (BadRequestException ''Invalid orderID''), d)
      | Some oid \<Rightarrow>
          if blank oid then (Inl (BadRequestException ''Invalid orderID''), d)
          else case attachOrderToPayment now userId paymentId oid raw' d of
                 (Inl err, d') \<Rightarrow> (Inl (HttpException 500 ''Failed to attach order to invoice''), d')
               | (Inr invoice, d') \<Rightarrow> (Inr invoice, d'))"

subsection \<open>\<^verbatim>\<open>tryAttachToPending\<close> and \<^verbatim>\<open>captureOrder\<close>\<close>

text \<open>The four lookups of \<^verbatim>\<open>tryAttachToPending\<close> (called with no row in hand), one by one.\<close>

definition byOrder :: "string option \<Rightarrow> db \<Rightarrow> Payment option" where
  "byOrder orderId d =
     (if truthy_str orderId then findOne (\<lambda>p. paypalOrderId p = orderId) d else None)"

definition byClientTemp :: "order_json \<Rightarrow> db \<Rightarrow> Payment option" where
  "byClientTemp captureResult d =
     (let metaClientTemp =
            nullish (o_reference_id captureResult)
              (nullish (o_invoice_id captureResult)
                 (nullish (o_meta_client_temp_id captureResult)
                    (o_raw_meta_client_temp_id captureResult)))
      in if truthy_str metaClientTemp then findLatest (\<lambda>p. clientTempId p = metaClientTemp) d
         else None)"

definition byMinuteAmount :: "order_json \<Rightarrow> db \<Rightarrow> Payment option" where
  "byMinuteAmount captureResult d =
     (let amountVal =
            nullish (case o_capture captureResult of None \<Rightarrow> None | Some c \<Rightarrow> cap_amount_value c)
              (nullish (o_pu_amount_value captureResult) (o_amount_value captureResult));
          createdTime =
            nullish (case o_capture captureResult of None \<Rightarrow> None | Some c \<Rightarrow> cap_create_time c)
              (nullish (o_create_time captureResult) (o_update_time captureResult))
      in case (createdTime, amountVal) of
           (Some t, Some a) \<Rightarrow>
             findLatest (\<lambda>p. createdAtMinute p = Some (minuteBucketOf t) \<and> amount p = a) d
         | _ \<Rightarrow> None)"

definition latestPendingOf :: "nat \<Rightarrow> db \<Rightarrow> Payment option" where
  "latestPendingOf uid d =
     (if uid \<noteq> 0
      then findLatest (\<lambda>p. user_id p = Some uid \<and> status p \<in> set pendingStatuses) d
      else None)"

definition tryAttachToPending :: "string option \<Rightarrow> order_json \<Rightarrow> nat \<Rightarrow> db \<Rightarrow> Payment option" where
  "tryAttachToPending orderId captureResult uid d =
     (case byOrder orderId d of
        Some p \<Rightarrow> Some p
      | None \<Rightarrow>
         (case byClientTemp captureResult d of
            Some p \<Rightarrow> Some p
          | None \<Rightarrow>
             (case byMinuteAmount captureResult d of
                Some p \<Rightarrow> Some p
              | None \<Rightarrow> latestPendingOf uid d)))"

text \<open>\<^verbatim>\<open>payer.name.given_name ? `${given_name} ${surname ?? ""}` : fallback\<close>\<close>

definition payer_name_of :: "order_json \<Rightarrow> string option \<Rightarrow> string option" where
  "payer_name_of ord fallback =
     (if truthy_str (o_payer_given_name ord)
      then Some (the (o_payer_given_name ord) @ '' ''
                 @ (case o_payer_surname ord of None \<Rightarrow> [] | Some sn \<Rightarrow> sn))
      else fallback)"

definition finalStatuses :: "string list" where
  "finalStatuses = [''completed'', ''captured'', ''succeeded'', ''paid'']"

text \<open>The plan update at the end of \<^verbatim>\<open>captureOrder\<close>, for the user who called.\<close>

definition grant_after_capture :: "time \<Rightarrow> nat \<Rightarrow> Payment \<Rightarrow> db \<Rightarrow> db" where
  "grant_after_capture now uid payment d =
     (if toLowerCase (status payment) \<in> set finalStatuses
      then (case users d uid of
              None \<Rightarrow> d
            | Some user \<Rightarrow> save_user uid (grant_plan now payment user) d)
      else d)"

text \<open>What \<^verbatim>\<open>captureOrder\<close> reads from the capture result.\<close>

definition capture_of :: "order_json \<Rightarrow> capture_json option" where
  "capture_of captureResult = o_capture captureResult"

definition capture_id_of :: "order_json \<Rightarrow> string option" where
  "capture_id_of captureResult =
     (case capture_of captureResult of None \<Rightarrow> None | Some c \<Rightarrow> cap_id c)"

definition capture_status :: "order_json \<Rightarrow> string" where
  "capture_status captureResult =
     (case nullish (case capture_of captureResult of None \<Rightarrow> None | Some c \<Rightarrow> cap_status c)
             (o_status captureResult) of
        None \<Rightarrow> ''COMPLETED''
      | Some st \<Rightarrow> st)"

definition capture_amount :: "order_json \<Rightarrow> int option" where
  "capture_amount captureResult =
     nullish (case capture_of captureResult of None \<Rightarrow> None | Some c \<Rightarrow> cap_amount_value c)
       (o_pu_amount_value captureResult)"

definition capture_currency :: "order_json \<Rightarrow> string" where
  "capture_currency captureResult =
     (case nullish (case capture_of captureResult of None \<Rightarrow> None | Some c \<Rightarrow> cap_currency_code c)
             (o_pu_currency_code captureResult) of
        None \<Rightarrow> ''USD''
      | Some c \<Rightarrow> c)"

text \<open>
  The insert object built when no row is found, key by key; the query-builder insert stores
  its \<open>entity_values\<close>, a row of the caller.
\<close>

definition capture_insertObj :: "time \<Rightarrow> nat \<Rightarrow> string option \<Rightarrow> order_json \<Rightarrow> Payment" where
  "capture_insertObj now uid orderID captureResult =
     default_row
       \<lparr>user_id := Some uid, plan := Some ''Pro'', billingPeriod := None,
        amount := (case capture_amount captureResult of None \<Rightarrow> 0 | Some a \<Rightarrow> a),
        currency := capture_currency captureResult,
        paypalOrderId := orderID,
        paypalCaptureId := capture_id_of captureResult,
        status := toLowerCase (capture_status captureResult),
        raw := RawOrder captureResult,
        payerEmail := o_payer_email captureResult,
        payerName := payer_name_of captureResult None,
        createdAtMinute := Some (minuteBucketOf now),
        createdAt := now, updatedAt := now\<rparr>"

text \<open>The assignments to the row that was found.\<close>

definition capture_update :: "order_json \<Rightarrow> Payment \<Rightarrow> Payment" where
  "capture_update captureResult payment =
     payment
       \<lparr>paypalCaptureId := nullish (capture_id_of captureResult) (paypalCaptureId payment),
        status := toLowerCase (capture_status captureResult),
        amount := (case capture_amount captureResult of None \<Rightarrow> amount payment | Some a \<Rightarrow> a),
        currency := capture_currency captureResult,
        raw := RawOrder captureResult,
        payerEmail := nullish (o_payer_email captureResult) (payerEmail payment),
        payerName := payer_name_of captureResult (payerName payment)\<rparr>"

text \<open>
  \<open>gateway\<close> is \<^verbatim>\<open>captureOrderOnPayPal\<close>: the order document, or \<open>None\<close> when the call throws.
\<close>

definition captureOrder ::
  "(string \<Rightarrow> order_json option) \<Rightarrow> time \<Rightarrow> nat \<Rightarrow> string option \<Rightarrow> db
     \<Rightarrow> (error + Payment) \<times> db" where
  "captureOrder gateway now userId orderID d =
     (case ensureValidUserId userId of
        Inl e \<Rightarrow> (Inl e, d)
      | Inr uid \<Rightarrow>
          if \<not> truthy_str orderID then (Inl (BadRequestException ''Missing order id''), d)
          else case gateway (the orderID) of
            None \<Rightarrow> (Inl GatewayError, d)
          | Some captureResult \<Rightarrow>
             (let found = (case findOne (\<lambda>p. paypalOrderId p = orderID) d of
                             Some p \<Rightarrow> Some p
                           | None \<Rightarrow> tryAttachToPending orderID captureResult uid d);
                  written =
                    (case found of
                       None \<Rightarrow> qb_insert now (capture_insertObj now uid orderID captureResult) d
                     | Some payment \<Rightarrow> save_row (capture_update captureResult payment) d)
              in case written of
                   Inl e \<Rightarrow> (Inl e, d)
                 | Inr (payment, d') \<Rightarrow> (Inr payment, grant_after_capture now uid payment d')))"

subsection \<open>\<^verbatim>\<open>handleWebhook\<close>\<close>

definition webhookEvents :: "string list" where
  "webhookEvents = [''CHECKOUT.ORDER.APPROVED'', ''PAYMENT.CAPTURE.COMPLETED'',
                    ''PAYMENT.CAPTURE.DENIED'', ''PAYMENT.CAPTURE.PENDING'']"

definition eventType_of :: "webhook_event \<Rightarrow> string option" where
  "eventType_of event = nullish (event_type event) (ev_type event)"

definition emptyResource :: resource_json where
  "emptyResource = \<lparr>r_id = None, r_order_id = None, r_related_order_id = None,
                     r_status = None, r_amount_value = None\<rparr>"

definition resource_of :: "webhook_event \<Rightarrow> resource_json" where
  "resource_of event = (case resource event of None \<Rightarrow> emptyResource | Some r \<Rightarrow> r)"

text \<open>
  \<^verbatim>\<open>resource?.supplementary_data?.related_ids?.order_id ?? resource?.order_id ?? resource?.id\<close>
\<close>

definition orderId_of :: "webhook_event \<Rightarrow> string option" where
  "orderId_of event =
     nullish (r_related_order_id (resource_of event))
       (nullish (r_order_id (resource_of event)) (r_id (resource_of event)))"

text \<open>The status written from the re-fetched order: capture status, else order status, else the row's.\<close>

definition webhook_status :: "order_json \<Rightarrow> string \<Rightarrow> string" where
  "webhook_status ord fallback =
     toLowerCase
       (case nullish (case o_capture ord of None \<Rightarrow> None | Some c \<Rightarrow> cap_status c) (o_status ord) of
          None \<Rightarrow> fallback
        | Some st \<Rightarrow> st)"

definition webhook_capture_id :: "order_json \<Rightarrow> string option" where
  "webhook_capture_id ord = (case o_capture ord of None \<Rightarrow> None | Some c \<Rightarrow> cap_id c)"

text \<open>The minute bucket of the notification: capture time, else order times, else the clock.\<close>

definition webhook_minute :: "time \<Rightarrow> order_json \<Rightarrow> time" where
  "webhook_minute now ord =
     minuteBucketOf
       (case nullish (case o_capture ord of None \<Rightarrow> None | Some c \<Rightarrow> cap_create_time c)
               (nullish (o_create_time ord) (o_update_time ord)) of
          None \<Rightarrow> now
        | Some t \<Rightarrow> t)"

text \<open>
  \<^verbatim>\<open>foundPending\<close>: the latest pending row of that minute and amount, kept only when it has
  a user.
\<close>

definition webhook_where :: "time \<Rightarrow> order_json \<Rightarrow> Payment \<Rightarrow> bool" where
  "webhook_where now ord p =
     (createdAtMinute p = Some (webhook_minute now ord)
      \<and> amount p = (case o_pu_amount_value ord of None \<Rightarrow> 0 | Some a \<Rightarrow> a)
      \<and> status p \<in> set pendingStatuses)"

definition webhook_candidate :: "time \<Rightarrow> order_json \<Rightarrow> db \<Rightarrow> Payment option" where
  "webhook_candidate now ord d =
     (case findLatest (webhook_where now ord) d of
        None \<Rightarrow> None
      | Some cand \<Rightarrow> if truthy_num (user_id cand) then Some cand else None)"

text \<open>The assignments to a row from the re-fetched order.\<close>

definition webhook_update :: "order_json \<Rightarrow> Payment \<Rightarrow> Payment" where
  "webhook_update ord payment =
     payment
       \<lparr>paypalCaptureId := nullish (webhook_capture_id ord) (paypalCaptureId payment),
        status := webhook_status ord (status payment),
        payerEmail := nullish (o_payer_email ord) (payerEmail payment),
        payerName := payer_name_of ord (payerName payment),
        raw := RawOrder ord\<rparr>"

text \<open>The assignments to the row found by its capture id, from the notification itself.\<close>

definition payload_update :: "webhook_event \<Rightarrow> Payment \<Rightarrow> Payment" where
  "payload_update event payment =
     payment
       \<lparr>status := toLowerCase (case r_status (resource_of event) of
                                  None \<Rightarrow> status payment
                                | Some st \<Rightarrow> st),
        raw := RawEvent event\<rparr>"

text \<open>
  The insert object built when nothing matches, key by key; the query-builder insert stores
  its \<open>entity_values\<close>, a row with no user.
\<close>

definition webhook_insertObj :: "time \<Rightarrow> string option \<Rightarrow> order_json \<Rightarrow> Payment" where
  "webhook_insertObj now orderId ord =
     default_row
       \<lparr>paypalOrderId := orderId,
        paypalCaptureId := webhook_capture_id ord,
        amount := (case o_pu_amount_value ord of None \<Rightarrow> 0 | Some a \<Rightarrow> a),
        currency := (case o_pu_currency_code ord of None \<Rightarrow> ''USD'' | Some c \<Rightarrow> c),
        status := webhook_status ord ''completed'',
        payerEmail := o_payer_email ord,
        payerName := payer_name_of ord None,
        raw := RawOrder ord,
        createdAtMinute := Some (webhook_minute now ord),
        createdAt := now, updatedAt := now\<rparr>"

text \<open>The plan update of the reconciled row's user.\<close>

definition grant_after_webhook :: "time \<Rightarrow> Payment \<Rightarrow> db \<Rightarrow> db" where
  "grant_after_webhook now foundPending d =
     (case user_id foundPending of
        None \<Rightarrow> d
      | Some uid \<Rightarrow>
         (case users d uid of
            None \<Rightarrow> d
          | Some user \<Rightarrow> save_user uid (grant_plan now foundPending user) d))"

text \<open>
  The three ways the body writes, each after its lookup: by capture id from the payload,
  by order id from the re-fetched order, and for an order id no row holds.
\<close>

definition webhook_by_capture :: "webhook_event \<Rightarrow> db \<Rightarrow> error + db" where
  "webhook_by_capture event d =
     (case findOne (\<lambda>p. paypalCaptureId p = r_id (resource_of event)) d of
        None \<Rightarrow> Inr d
      | Some payment \<Rightarrow>
         (case save_row (payload_update event payment) d of
            Inl e \<Rightarrow> Inl e
          | Inr (saved, d') \<Rightarrow> Inr d'))"

definition webhook_unmatched :: "time \<Rightarrow> string option \<Rightarrow> order_json \<Rightarrow> db \<Rightarrow> error + db" where
  "webhook_unmatched now orderId ord d =
     (case webhook_candidate now ord d of
        Some foundPending \<Rightarrow>
          (case save_row (webhook_update ord (foundPending\<lparr>paypalOrderId := orderId\<rparr>)) d of
             Inl e \<Rightarrow> Inl e
           | Inr (saved, d') \<Rightarrow> Inr (grant_after_webhook now saved d'))
      | None \<Rightarrow>
          (case qb_insert now (webhook_insertObj now orderId ord) d of
             Inl e \<Rightarrow> Inl e
           | Inr (inserted, d') \<Rightarrow> Inr d'))"

definition webhook_by_order ::
  "(string \<Rightarrow> order_json option) \<Rightarrow> time \<Rightarrow> string option \<Rightarrow> db \<Rightarrow> error + db" where
  "webhook_by_order gateway now orderId d =
     (case gateway (the orderId) of
        None \<Rightarrow> Inl GatewayError
      | Some ord \<Rightarrow>
         (case findOne (\<lambda>p. paypalOrderId p = orderId) d of
            Some payment \<Rightarrow>
              (case save_row (webhook_update ord payment) d of
                 Inl e \<Rightarrow> Inl e
               | Inr (saved, d') \<Rightarrow> Inr d')
          | None \<Rightarrow> webhook_unmatched now orderId ord d))"

text \<open>
  The body inside the outer \<^verbatim>\<open>try\<close>. \<open>gateway\<close> is \<^verbatim>\<open>getOrderOnPayPal\<close>: the order
  document, or \<open>None\<close> when the call throws.
\<close>

definition handleWebhook_body ::
  "(string \<Rightarrow> order_json option) \<Rightarrow> time \<Rightarrow> webhook_event \<Rightarrow> db \<Rightarrow> error + db" where
  "handleWebhook_body gateway now event d =
     (if \<not> truthy_str (eventType_of event) then Inr d
      else if the (eventType_of event) \<notin> set webhookEvents then Inr d
      else if \<not> truthy_str (orderId_of event) \<and> truthy_str (r_id (resource_of event))
        then webhook_by_capture event d
      else if truthy_str (orderId_of event)
        then webhook_by_order gateway now (orderId_of event) d
      else Inr d)"

text \<open>
  \<^verbatim>\<open>handleWebhook\<close>: the outer \<^verbatim>\<open>catch\<close> logs the exception and returns; nothing reaches
  the caller.
\<close>

definition handleWebhook ::
  "(string \<Rightarrow> order_json option) \<Rightarrow> time \<Rightarrow> webhook_event \<Rightarrow> db \<Rightarrow> db" where
  "handleWebhook gateway now event d =
     (case handleWebhook_body gateway now event d of Inl err \<Rightarrow> d | Inr d' \<Rightarrow> d')"

subsection \<open>\<^verbatim>\<open>deletePaymentForUser\<close> and \<^verbatim>\<open>clearPendingForUser\<close>\<close>

definition deletePaymentForUser :: "nat \<Rightarrow> nat \<Rightarrow> db \<Rightarrow> (error + bool) \<times> db" where
  "deletePaymentForUser userId pid d =
     (case ensureValidUserId userId of
        Inl e \<Rightarrow> (Inl e, d)
      | Inr uid \<Rightarrow>
          if pid = 0 then (Inl (BadRequestException ''Invalid payment id''), d)
          else case findOne (\<lambda>p. payment_id p = pid) d of
            None \<Rightarrow> (Inr False, d)
          | Some payment \<Rightarrow>
              if user_id payment \<noteq> Some uid
              then (Inl (ForbiddenException ''Not allowed to delete this payment''), d)
              else (Inr True, d\<lparr>payments := filter (\<lambda>p. payment_id p \<noteq> pid) (payments d)\<rparr>))"

definition clear_where :: "nat \<Rightarrow> Payment \<Rightarrow> bool" where
  "clear_where uid p =
     ((case user_id p of None \<Rightarrow> 0 | Some u \<Rightarrow> u) = uid \<and> status p \<in> set pendingStatuses)"

definition clearPendingForUser :: "nat \<Rightarrow> db \<Rightarrow> (error + nat) \<times> db" where
  "clearPendingForUser userId d =
     (case ensureValidUserId userId of
        Inl e \<Rightarrow> (Inl e, d)
      | Inr uid \<Rightarrow>
          (Inr (length (filter (clear_where uid) (payments d))),
           d\<lparr>payments := filter (\<lambda>p. \<not> clear_where uid p) (payments d)\<rparr>))"

subsection \<open>Sample rows\<close>

text \<open>
  Users 42 and 43 on the Pro plan with no expiry; a monthly Pro payment of 12.99 USD with
  the given id, owner, status and creation instant.
\<close>

definition user_pro :: User where
  "user_pro = \<lparr>u_plan = Some ''Pro'', u_plan_expiry = None\<rparr>"

definition sample_row :: "nat \<Rightarrow> nat \<Rightarrow> string \<Rightarrow> time \<Rightarrow> Payment" where
  "sample_row i uid st t =
     default_row\<lparr>payment_id := i, user_id := Some uid, plan := Some ''Pro'',
                 billingPeriod := Some ''monthly'', amount := 1299, status := st,
                 createdAtMinute := Some (minuteBucketOf t), createdAt := t, updatedAt := t\<rparr>"

definition db_of :: "Payment list \<Rightarrow> db" where
  "db_of ps = \<lparr>payments = ps, users = [42 \<mapsto> user_pro, 43 \<mapsto> user_pro], next_id = 100\<rparr>"

text \<open>An order document of the gateway with one capture of 12.99 USD made at instant 600030.\<close>

definition sample_capture :: "string \<Rightarrow> string \<Rightarrow> capture_json" where
  "sample_capture cid st =
     \<lparr>cap_id = Some cid, cap_status = Some st, cap_amount_value = Some 1299,
      cap_currency_code = Some ''USD'', cap_create_time = Some 600030\<rparr>"

definition sample_order :: "string \<Rightarrow> string \<Rightarrow> order_json" where
  "sample_order cid st =
     \<lparr>o_status = Some ''COMPLETED'', o_capture = Some (sample_capture cid st),
      o_pu_amount_value = Some 1299, o_pu_currency_code = Some ''USD'',
      o_reference_id = None, o_invoice_id = None, o_meta_client_temp_id = None,
      o_raw_meta_client_temp_id = None, o_amount_value = None, o_payer_email = None,
      o_payer_given_name = None, o_payer_surname = None, o_create_time = None,
      o_update_time = None\<rparr>"

text \<open>A capture notification that names its order.\<close>

definition sample_event :: "string \<Rightarrow> string \<Rightarrow> string \<Rightarrow> webhook_event" where
  "sample_event et oid st =
     \<lparr>event_type = Some et, ev_type = None,
      resource = Some \<lparr>r_id = Some ''CAP-1'', r_order_id = None,
                       r_related_order_id = Some oid, r_status = Some st,
                       r_amount_value = Some 1299\<rparr>\<rparr>"

text \<open>
  Sample tables: two pending rows of user 42 in different minutes; the same with order
  ORDER-1 attached to the first; one completed row of user 42 that holds ORDER-1.
\<close>

definition db_two_pending :: db where
  "db_two_pending = db_of [sample_row 1 42 ''pending'' 600007, sample_row 2 42 ''pending'' 700007]"

definition db_attached :: db where
  "db_attached =
     db_of [(sample_row 1 42 ''pending'' 600007)\<lparr>paypalOrderId := Some ''ORDER-1'',
                                                    updatedAt := 800000\<rparr>,
            sample_row 2 42 ''pending'' 700007]"

definition db_completed :: db where
  "db_completed =
     db_of [(sample_row 1 42 ''completed'' 600007)\<lparr>paypalOrderId := Some ''ORDER-1''\<rparr>]"

text \<open>
  More sample tables and gateways: two pending rows of the same minute and amount that
  belong to different users; a pending Tutor row of user 42 from another minute; a pending
  row with ORDER-1 attached; a completed row that holds ORDER-1 and CAP-1. The gateways
  answer every order id with a capture that is completed, or pending, or they fail.
\<close>

definition db_two_candidates :: db where
  "db_two_candidates =
     db_of [sample_row 1 42 ''pending'' 600007, sample_row 2 43 ''pending'' 600020]"

definition db_other_plan :: db where
  "db_other_plan =
     db_of [(sample_row 1 42 ''pending'' 100000)\<lparr>plan := Some ''Tutor'', amount := 2499\<rparr>]"


definition db_captured :: db where
  "db_captured =
     db_of [(sample_row 1 42 ''completed'' 600007)\<lparr>paypalOrderId := Some ''ORDER-1'',
                                                      paypalCaptureId := Some ''CAP-1''\<rparr>]"

definition gw_completed :: "string \<Rightarrow> order_json option" where
  "gw_completed oid = Some (sample_order ''CAP-1'' ''COMPLETED'')"

definition gw_pending :: "string \<Rightarrow> order_json option" where
  "gw_pending oid = Some (sample_order ''CAP-1'' ''PENDING'')"

definition gw_down :: "string \<Rightarrow> order_json option" where
  "gw_down oid = None"

text \<open>
  A request of user 42 for the monthly Pro plan that arrives at the given instant, with no
  client token and no \<^verbatim>\<open>createdAt\<close> of its own.
\<close>

definition sample_request :: "time \<Rightarrow> pending_request" where
  "sample_request t =
     \<lparr>rq_now = t, rq_userId = 42, rq_plan = Some ''Pro'', rq_billingPeriod = Some ''monthly'',
      rq_amount = None, rq_clientTempId = None, rq_createdAt = None, rq_reason = None\<rparr>"

section \<open>Properties\<close>

subsection \<open>Lookups\<close>

lemma most_recent_None_iff: "most_recent ps = None \<longleftrightarrow> ps = []"
  by (induction ps) (auto split: option.splits)

lemma most_recent_in_set: "most_recent ps = Some p \<Longrightarrow> p \<in> set ps"
  by (induction ps arbitrary: p) (auto split: option.splits if_splits)

lemma most_recent_all_le:
  "most_recent ps = Some p \<Longrightarrow> \<forall>q \<in> set ps. createdAt q \<le> createdAt p"
proof (induction ps arbitrary: p)
  case Nil
  then show ?case by simp
next
  case (Cons a ps)
  show ?case
  proof (cases "most_recent ps")
    case None
    then have "ps = []" by (simp add: most_recent_None_iff)
    with Cons.prems None show ?thesis by simp
  next
    case (Some r)
    have r: "\<forall>x \<in> set ps. createdAt x \<le> createdAt r"
      using Cons.IH [OF Some] .
    show ?thesis
    proof (cases "createdAt a < createdAt r")
      case True
      with Some Cons.prems have "p = r" by simp
      with True r show ?thesis by auto
    next
      case False
      with Some Cons.prems have "p = a" by simp
      with False r show ?thesis by fastforce
    qed
  qed
qed

lemma most_recent_latest:
  "most_recent ps = Some p \<Longrightarrow> q \<in> set ps \<Longrightarrow> createdAt q \<le> createdAt p"
  using most_recent_all_le by blast

lemma findLatest_None_iff: "findLatest P d = None \<longleftrightarrow> (\<forall>p \<in> set (payments d). \<not> P p)"
  by (auto simp: findLatest_def most_recent_None_iff filter_empty_conv)

lemma findLatest_Some:
  "findLatest P d = Some p \<Longrightarrow> p \<in> set (payments d) \<and> P p"
  unfolding findLatest_def using most_recent_in_set by fastforce

lemma findLatest_latest:
  "findLatest P d = Some p \<Longrightarrow> q \<in> set (payments d) \<Longrightarrow> P q \<Longrightarrow> createdAt q \<le> createdAt p"
  unfolding findLatest_def using most_recent_latest [of "filter P (payments d)" p q] by simp

lemma findOne_Some: "findOne P d = Some p \<Longrightarrow> p \<in> set (payments d) \<and> P p"
  unfolding findOne_def by (metis find_Some_iff nth_mem)

lemma findOne_None_iff: "findOne P d = None \<longleftrightarrow> (\<forall>p \<in> set (payments d). \<not> P p)"
  unfolding findOne_def by (auto simp: find_None_iff)

subsection \<open>C8: who is allowed\<close>

text \<open>
  C8. For an owner the user table knows, \<^verbatim>\<open>getAccessInfo\<close> answers \<open>allowed = true\<close> exactly
  when the owner's plan is the free plan (no plan counts as Free, letter case is ignored), or
  the stored plan expiry is strictly after the current instant, or at least one payment row of
  that owner has one of the successful statuses completed, captured, succeeded, success, paid.
\<close>

theorem getAccessInfo_allowed_iff:
  assumes "userId \<noteq> 0" and "users d userId = Some u"
  shows "allowed (getAccessInfo now userId d) \<longleftrightarrow>
           (toLowerCase (case u_plan u of None \<Rightarrow> ''Free'' | Some p \<Rightarrow> p) = ''free''
            \<or> (\<exists>e. u_plan_expiry u = Some e \<and> now < e)
            \<or> (\<exists>p \<in> set (payments d). user_id p = Some userId \<and> status p \<in> set allowedStatuses))"
proof -
  let ?P = "\<lambda>p. user_id p = Some userId \<and> status p \<in> set allowedStatuses"
  have paid: "findLatest ?P d \<noteq> None \<longleftrightarrow> (\<exists>p \<in> set (payments d). ?P p)"
    by (simp add: findLatest_None_iff)
  have act: "(case u_plan_expiry u of None \<Rightarrow> False | Some expiry \<Rightarrow> now < expiry)
               \<longleftrightarrow> (\<exists>e. u_plan_expiry u = Some e \<and> now < e)"
    by (cases "u_plan_expiry u") auto
  show ?thesis
    using assms paid act by (simp add: getAccessInfo_def Let_def)
qed

theorem getAccessInfo_allowed_iff_witness:
  "(42::nat) \<noteq> 0 \<and> users (db_of [sample_row 1 42 ''completed'' 600007]) 42 = Some user_pro
   \<and> allowed (getAccessInfo 700000 42 (db_of [sample_row 1 42 ''completed'' 600007]))"
proof -
  have u: "users (db_of [sample_row 1 42 ''completed'' 600007]) 42 = Some user_pro"
    by (simp add: db_of_def)
  have "\<exists>p \<in> set (payments (db_of [sample_row 1 42 ''completed'' 600007])).
          user_id p = Some 42 \<and> status p \<in> set allowedStatuses"
    by (simp add: db_of_def sample_row_def default_row_def allowedStatuses_def)
  then show ?thesis
    using getAccessInfo_allowed_iff [of 42 "db_of [sample_row 1 42 ''completed'' 600007]" user_pro 700000] u
    by simp
qed

subsection \<open>Facts about the store\<close>

lemmas sample_defs = db_of_def sample_row_def default_row_def minuteBucketOf_def user_pro_def
  sample_order_def sample_capture_def sample_event_def

lemmas index_defs = unique_violation_def collides_def same_order_id_def same_capture_id_def
  same_user_plan_minute_def

lemma find_distinct_id:
  "distinct (map payment_id ps) \<Longrightarrow> q \<in> set ps
     \<Longrightarrow> find (\<lambda>p. payment_id p = payment_id q) ps = Some q"
  by (induction ps) (auto simp: rev_image_eqI)

lemma unique_violation_order:
  assumes "q \<in> set ps" and "payment_id q \<noteq> payment_id p"
    and "paypalOrderId p = Some x" and "paypalOrderId q = Some x"
  shows "unique_violation ps p"
  using assms unfolding unique_violation_def list_ex_iff collides_def same_order_id_def
  by auto

lemma adopt_meta_createdAt_keeps:
  "payment_id (adopt_meta_createdAt p) = payment_id p"
  "paypalOrderId (adopt_meta_createdAt p) = paypalOrderId p"
  by (simp_all add: adopt_meta_createdAt_def split: option.splits)

subsection \<open>C2: the same order id on a second row\<close>

text \<open>
  C2, as the code has it. When a row already holds an order id, attaching that order id to
  another row of the caller fails and changes nothing in the database, so the first row
  keeps its order id. The failure is not a conflict error: the service lets the store's
  unique violation (\<^verbatim>\<open>QueryFailedError\<close>, code 23505) escape, and the controller reports
  it as HTTP 500 "Failed to attach order to invoice".
\<close>

theorem attach_same_order_to_second_row_fails:
  assumes "p1 \<in> set (payments d)" and "paypalOrderId p1 = Some orderID"
    and "findOne (\<lambda>p. payment_id p = paymentId) d = Some p2"
    and "paymentId \<noteq> payment_id p1"
    and "userId \<noteq> 0" and "paymentId \<noteq> 0" and "user_id p2 = Some userId"
    and "\<not> blank orderID"
  shows "attachOrderToPayment now userId paymentId orderID raw' d
           = (Inl (QueryFailedError pgUniqueViolationCode), d)
         \<and> attachOrder now userId paymentId (Some orderID) raw' d
           = (Inl (HttpException 500 ''Failed to attach order to invoice''), d)"
proof -
  let ?p1 = "p2\<lparr>paypalOrderId := Some orderID, raw := (if raw' = RawNull then raw p2 else raw')\<rparr>"
  let ?p3 = "(adopt_meta_createdAt ?p1)\<lparr>updatedAt := now\<rparr>"
  have id2: "payment_id p2 = paymentId"
    using findOne_Some [OF assms(3)] by simp
  have "unique_violation (payments d) ?p3"
    by (rule unique_violation_order [OF assms(1), where x = orderID])
       (simp_all add: adopt_meta_createdAt_keeps id2 assms(2) assms(4) [symmetric])
  then have sv: "save_row ?p3 d = Inl (QueryFailedError pgUniqueViolationCode)"
    by (simp add: save_row_def)
  have svc: "attachOrderToPayment now userId paymentId orderID raw' d
               = (Inl (QueryFailedError pgUniqueViolationCode), d)"
    using assms(3,5,6,7) sv
    by (simp add: attachOrderToPayment_def ensureValidUserId_def Let_def)
  show ?thesis
    using svc assms(5,6,8) by (simp add: attachOrder_def)
qed

lemma attach_first_row:
  "attachOrder 800000 42 1 (Some ''ORDER-1'') RawNull db_two_pending
     = (Inr (invoiceShapeFromRow (hd (payments db_attached))), db_attached)"
  by (simp add: attachOrder_def attachOrderToPayment_def ensureValidUserId_def findOne_def
      sample_defs db_two_pending_def db_attached_def adopt_meta_createdAt_def save_row_def
      index_defs is_space_def Let_def)

theorem attach_same_order_to_second_row_fails_witness:
  "hd (payments db_attached) \<in> set (payments db_attached)
   \<and> paypalOrderId (hd (payments db_attached)) = Some ''ORDER-1''
   \<and> findOne (\<lambda>p. payment_id p = 2) db_attached = Some (sample_row 2 42 ''pending'' 700007)
   \<and> attachOrderToPayment 900000 42 2 ''ORDER-1'' RawNull db_attached
       = (Inl (QueryFailedError pgUniqueViolationCode), db_attached)
   \<and> attachOrder 900000 42 2 (Some ''ORDER-1'') RawNull db_attached
       = (Inl (HttpException 500 ''Failed to attach order to invoice''), db_attached)"
proof -
  have a: "hd (payments db_attached) \<in> set (payments db_attached)"
    by (simp add: db_attached_def db_of_def)
  have b: "paypalOrderId (hd (payments db_attached)) = Some ''ORDER-1''"
    by (simp add: db_attached_def db_of_def)
  have c: "findOne (\<lambda>p. payment_id p = 2) db_attached = Some (sample_row 2 42 ''pending'' 700007)"
    by (simp add: db_attached_def findOne_def sample_defs)
  have e: "(2::nat) \<noteq> payment_id (hd (payments db_attached))"
    by (simp add: db_attached_def sample_defs)
  have f: "user_id (sample_row 2 42 ''pending'' 700007) = Some 42"
    by (simp add: sample_defs)
  have g: "\<not> blank ''ORDER-1''"
    by (simp add: is_space_def)
  show ?thesis
    using attach_same_order_to_second_row_fails [OF a b c e _ _ f g, of 900000 RawNull] a b c
    by simp
qed

text \<open>
  The claim as written fails: after ORDER-1 is attached to row 1, the second attempt on
  row 2 ends in HTTP 500 at the controller and in error 23505 at the service, neither of
  them a conflict error.
\<close>

theorem attach_conflict_error_counterexample:
  "attachOrder 800000 42 1 (Some ''ORDER-1'') RawNull db_two_pending
     = (Inr (invoiceShapeFromRow (hd (payments db_attached))), db_attached)
   \<and> fst (attachOrder 900000 42 2 (Some ''ORDER-1'') RawNull db_attached)
       = Inl (HttpException 500 ''Failed to attach order to invoice'')
   \<and> fst (attachOrderToPayment 900000 42 2 ''ORDER-1'' RawNull db_attached)
       = Inl (QueryFailedError ''23505'')
   \<and> \<not> conflict_error (fst (attachOrder 900000 42 2 (Some ''ORDER-1'') RawNull db_attached))
   \<and> \<not> conflict_error (fst (attachOrderToPayment 900000 42 2 ''ORDER-1'' RawNull db_attached))"
proof -
  have svc: "attachOrderToPayment 900000 42 2 ''ORDER-1'' RawNull db_attached
               = (Inl (QueryFailedError ''23505''), db_attached)"
    by (simp add: attachOrderToPayment_def ensureValidUserId_def findOne_def sample_defs
        db_attached_def adopt_meta_createdAt_def save_row_def index_defs
        pgUniqueViolationCode_def Let_def)
  have ctl: "attachOrder 900000 42 2 (Some ''ORDER-1'') RawNull db_attached
               = (Inl (HttpException 500 ''Failed to attach order to invoice''), db_attached)"
    by (simp add: attachOrder_def svc is_space_def)
  show ?thesis
    using attach_first_row svc ctl by simp
qed

subsection \<open>C9: what the delete operations remove\<close>

text \<open>
  C9, as the code has it. \<^verbatim>\<open>deletePaymentForUser\<close> removes a row only when it has the
  requested id and belongs to the requesting user, whatever its status; the row of another
  user is refused with \<^verbatim>\<open>ForbiddenException\<close> and the table stays as it was.
  \<^verbatim>\<open>clearPendingForUser\<close> removes only rows of the requesting user whose status is one of
  pending, created, pending_capture, authorized.
\<close>

theorem deletion_scope:
  assumes "distinct (map payment_id (payments d))"
  shows "(\<forall>q \<in> set (payments d) - set (payments (snd (deletePaymentForUser userId pid d))).
            payment_id q = pid \<and> user_id q = Some userId)
       \<and> (\<forall>q \<in> set (payments d). payment_id q = pid \<and> pid \<noteq> 0 \<and> userId \<noteq> 0
                                    \<and> user_id q \<noteq> Some userId
            \<longrightarrow> deletePaymentForUser userId pid d
                  = (Inl (ForbiddenException ''Not allowed to delete this payment''), d))
       \<and> (\<forall>q \<in> set (payments d) - set (payments (snd (clearPendingForUser userId d))).
            user_id q = Some userId \<and> status q \<in> set pendingStatuses)"
proof -
  have one: "payment_id q = pid \<and> user_id q = Some userId"
    if q: "q \<in> set (payments d) - set (payments (snd (deletePaymentForUser userId pid d)))" for q
  proof (cases "findOne (\<lambda>p. payment_id p = pid) d")
    case None
    with q show ?thesis
      by (auto simp: deletePaymentForUser_def ensureValidUserId_def split: if_splits)
  next
    case (Some p)
    from q have del: "payment_id q = pid \<and> user_id p = Some userId"
      using Some by (auto simp: deletePaymentForUser_def ensureValidUserId_def split: if_splits)
    then have "findOne (\<lambda>p. payment_id p = pid) d = Some q"
      using find_distinct_id [OF assms, of q] q by (auto simp: findOne_def)
    with Some del show ?thesis by simp
  qed
  have two: "deletePaymentForUser userId pid d
                  = (Inl (ForbiddenException ''Not allowed to delete this payment''), d)"
    if q: "q \<in> set (payments d)"
      and h: "payment_id q = pid \<and> pid \<noteq> 0 \<and> userId \<noteq> 0 \<and> user_id q \<noteq> Some userId" for q
  proof -
    have "findOne (\<lambda>p. payment_id p = pid) d = Some q"
      using find_distinct_id [OF assms q] h by (auto simp: findOne_def)
    then show ?thesis
      using h by (simp add: deletePaymentForUser_def ensureValidUserId_def)
  qed
  have three: "user_id q = Some userId \<and> status q \<in> set pendingStatuses"
    if q: "q \<in> set (payments d) - set (payments (snd (clearPendingForUser userId d)))" for q
    using q
    by (auto simp: clearPendingForUser_def ensureValidUserId_def clear_where_def
             split: if_splits option.splits)
  show ?thesis using one two three by blast
qed

theorem deletion_scope_witness:
  "distinct (map payment_id (payments db_completed))
   \<and> deletePaymentForUser 43 1 db_completed
       = (Inl (ForbiddenException ''Not allowed to delete this payment''), db_completed)"
proof -
  have d: "distinct (map payment_id (payments db_completed))"
    by (simp add: db_completed_def sample_defs)
  have m: "hd (payments db_completed) \<in> set (payments db_completed)"
    by (simp add: db_completed_def sample_defs)
  have h: "payment_id (hd (payments db_completed)) = 1 \<and> (1::nat) \<noteq> 0 \<and> (43::nat) \<noteq> 0
           \<and> user_id (hd (payments db_completed)) \<noteq> Some 43"
    by (simp add: db_completed_def sample_defs)
  from deletion_scope [OF d, of 43 1] m h d show ?thesis by blast
qed

text \<open>
  The claim as written fails: the owner's completed row is deleted like any other.
\<close>

theorem delete_terminal_row_counterexample:
  "status (hd (payments db_completed)) = ''completed''
   \<and> deletePaymentForUser 42 1 db_completed = (Inr True, db_completed\<lparr>payments := []\<rparr>)"
  by (simp add: db_completed_def deletePaymentForUser_def ensureValidUserId_def findOne_def
      sample_defs)

subsection \<open>Facts about the operations\<close>

lemmas eval_defs = handleWebhook_def handleWebhook_body_def eventType_of_def orderId_of_def
  resource_of_def webhookEvents_def webhook_by_order_def webhook_by_capture_def
  webhook_unmatched_def webhook_candidate_def findLatest_def webhook_where_def
  webhook_minute_def pendingStatuses_def findOne_def save_row_def insert_row_def index_defs
  webhook_update_def payload_update_def webhook_insertObj_def webhook_capture_id_def
  webhook_status_def payer_name_of_def toLowerCase_def lower_char_def
  grant_after_webhook_def save_user_def grant_plan_def or_str_def
  captureOrder_def ensureValidUserId_def tryAttachToPending_def byOrder_def byClientTemp_def
  byMinuteAmount_def latestPendingOf_def capture_update_def capture_insertObj_def
  capture_of_def capture_id_of_def capture_status_def capture_amount_def capture_currency_def
  grant_after_capture_def finalStatuses_def addDays30_def msPerDay_def
  qb_insert_def entity_values_def amount_fits_def strings_fit_def default_row_def Let_def


lemma update_keeps_id [simp]:
  "payment_id (webhook_update ord p) = payment_id p"
  "payment_id (capture_update res p) = payment_id p"
  "payment_id (payload_update event p) = payment_id p"
  by (simp_all add: webhook_update_def capture_update_def payload_update_def)

lemma recognised_event:
  assumes "eventType_of event = Some et" and "et \<in> set webhookEvents"
  shows "truthy_str (eventType_of event) \<and> the (eventType_of event) \<in> set webhookEvents"
  using assms by (auto simp: webhookEvents_def)

lemma webhook_with_order:
  assumes "eventType_of event = Some et" and "et \<in> set webhookEvents"
    and "orderId_of event = Some oid" and "oid \<noteq> []"
  shows "handleWebhook_body gateway now event d = webhook_by_order gateway now (Some oid) d"
  using recognised_event [OF assms(1,2)] assms(3,4)
  by (simp add: handleWebhook_body_def)

subsection \<open>C3: what a webhook or a capture does to the status\<close>




subsection \<open>C4: the plan expiry after a capture\<close>





subsection \<open>C5: the minute and amount heuristic\<close>

text \<open>
  C5, as the code has it. The heuristic of the webhook matches at most one row: the most
  recently created pending row of that minute bucket and amount. When several rows qualify
  it still takes the latest of them (provided that row has a user); it does not treat the
  notification as unmatched.
\<close>

theorem webhook_candidate_is_latest:
  assumes "p \<in> set (payments d)" and "webhook_where now ord p"
    and "\<forall>q \<in> set (payments d). webhook_where now ord q \<longrightarrow> truthy_num (user_id q)"
  shows "\<exists>c. webhook_candidate now ord d = Some c
             \<and> c \<in> set (payments d) \<and> webhook_where now ord c
             \<and> (\<forall>q \<in> set (payments d). webhook_where now ord q \<longrightarrow> createdAt q \<le> createdAt c)"
proof -
  from assms(1,2) have "findLatest (webhook_where now ord) d \<noteq> None"
    by (auto simp: findLatest_None_iff)
  then obtain c where c: "findLatest (webhook_where now ord) d = Some c"
    by blast
  have in_c: "c \<in> set (payments d) \<and> webhook_where now ord c"
    using findLatest_Some [OF c] .
  with assms(3) have "truthy_num (user_id c)"
    by blast
  with c have "webhook_candidate now ord d = Some c"
    by (simp add: webhook_candidate_def)
  moreover have "\<forall>q \<in> set (payments d). webhook_where now ord q \<longrightarrow> createdAt q \<le> createdAt c"
    using findLatest_latest [OF c] by blast
  ultimately show ?thesis
    using in_c by blast
qed

theorem webhook_candidate_is_latest_witness:
  "sample_row 1 42 ''pending'' 600007 \<in> set (payments db_two_candidates)
   \<and> webhook_where 900000 (sample_order ''CAP-1'' ''COMPLETED'') (sample_row 1 42 ''pending'' 600007)
   \<and> (\<exists>c. webhook_candidate 900000 (sample_order ''CAP-1'' ''COMPLETED'') db_two_candidates = Some c
           \<and> createdAt (sample_row 1 42 ''pending'' 600007) \<le> createdAt c)"
proof -
  let ?ord = "sample_order ''CAP-1'' ''COMPLETED''"
  have a: "sample_row 1 42 ''pending'' 600007 \<in> set (payments db_two_candidates)"
    by (simp add: db_two_candidates_def db_of_def)
  have b: "webhook_where 900000 ?ord (sample_row 1 42 ''pending'' 600007)"
    by (simp add: webhook_where_def webhook_minute_def sample_defs pendingStatuses_def)
  have c: "\<forall>q \<in> set (payments db_two_candidates).
             webhook_where 900000 ?ord q \<longrightarrow> truthy_num (user_id q)"
    by (simp add: db_two_candidates_def sample_defs)
  from webhook_candidate_is_latest [OF a b c] a b show ?thesis
    by blast
qed

text \<open>
  The claim as written fails: rows 1 and 2, of users 42 and 43, both qualify; the resolver
  picks row 2 and the webhook completes it with ORDER-9.
\<close>

lemma candidate_of_two: "webhook_candidate 900000 (sample_order ''CAP-1'' ''COMPLETED'') db_two_candidates
     = Some (sample_row 2 43 ''pending'' 600020)"
  by (simp add: webhook_candidate_def findLatest_def webhook_where_def webhook_minute_def
      db_two_candidates_def sample_defs pendingStatuses_def)

theorem ambiguous_heuristic_counterexample:
  "webhook_where 900000 (sample_order ''CAP-1'' ''COMPLETED'') (sample_row 1 42 ''pending'' 600007)
   \<and> webhook_where 900000 (sample_order ''CAP-1'' ''COMPLETED'') (sample_row 2 43 ''pending'' 600020)
   \<and> webhook_candidate 900000 (sample_order ''CAP-1'' ''COMPLETED'') db_two_candidates
       = Some (sample_row 2 43 ''pending'' 600020)
   \<and> map (\<lambda>p. (payment_id p, paypalOrderId p, status p))
        (payments (handleWebhook gw_completed 900000
                     (sample_event ''PAYMENT.CAPTURE.COMPLETED'' ''ORDER-9'' ''COMPLETED'')
                     db_two_candidates))
       = [(1, None, ''pending''), (2, Some ''ORDER-9'', ''completed'')]"
proof -
  have w1: "webhook_where 900000 (sample_order ''CAP-1'' ''COMPLETED'') (sample_row 1 42 ''pending'' 600007)"
    by (simp add: webhook_where_def webhook_minute_def sample_defs pendingStatuses_def)
  have w2: "webhook_where 900000 (sample_order ''CAP-1'' ''COMPLETED'') (sample_row 2 43 ''pending'' 600020)"
    by (simp add: webhook_where_def webhook_minute_def sample_defs pendingStatuses_def)
  have h: "map (\<lambda>p. (payment_id p, paypalOrderId p, status p))
        (payments (handleWebhook gw_completed 900000
                     (sample_event ''PAYMENT.CAPTURE.COMPLETED'' ''ORDER-9'' ''COMPLETED'')
                     db_two_candidates))
       = [(1, None, ''pending''), (2, Some ''ORDER-9'', ''completed'')]"
    by (simp add: handleWebhook_def handleWebhook_body_def eventType_of_def orderId_of_def
        resource_of_def webhookEvents_def webhook_by_order_def gw_completed_def
        webhook_unmatched_def webhook_candidate_def findLatest_def webhook_where_def
        webhook_minute_def pendingStatuses_def db_two_candidates_def findOne_def sample_defs
        save_row_def index_defs webhook_update_def webhook_capture_id_def webhook_status_def
        payer_name_of_def toLowerCase_def lower_char_def grant_after_webhook_def save_user_def
        grant_plan_def or_str_def)
  show ?thesis using w1 w2 candidate_of_two h by simp
qed

subsection \<open>C6: where the webhook takes its values from\<close>

text \<open>
  C6, as the code has it. For a capture-related event that names a non-empty order id the
  reconciler fetches the order from the gateway before it writes: when the fetch fails the
  database is unchanged, and two notifications for the same order id leave the same
  database whatever else they carry, so nothing but the order id comes from the payload.
  (A notification with an empty order id and a capture id is handled without a fetch.)
\<close>

theorem webhook_uses_refetched_order:
  assumes "eventType_of e1 = Some t1" and "t1 \<in> set webhookEvents"
    and "eventType_of e2 = Some t2" and "t2 \<in> set webhookEvents"
    and "orderId_of e1 = Some oid" and "orderId_of e2 = Some oid" and "oid \<noteq> []"
  shows "handleWebhook gateway now e1 d = handleWebhook gateway now e2 d
       \<and> (gateway oid = None \<longrightarrow> handleWebhook gateway now e1 d = d)"
proof -
  have "handleWebhook_body gateway now e1 d = webhook_by_order gateway now (Some oid) d"
    by (rule webhook_with_order [OF assms(1,2,5,7)])
  moreover have "handleWebhook_body gateway now e2 d = webhook_by_order gateway now (Some oid) d"
    by (rule webhook_with_order [OF assms(3,4,6,7)])
  ultimately show ?thesis
    by (simp add: handleWebhook_def webhook_by_order_def)
qed

theorem webhook_uses_refetched_order_witness:
  "eventType_of (sample_event ''PAYMENT.CAPTURE.COMPLETED'' ''ORDER-1'' ''COMPLETED'')
     = Some ''PAYMENT.CAPTURE.COMPLETED''
   \<and> eventType_of (sample_event ''PAYMENT.CAPTURE.PENDING'' ''ORDER-1'' ''PENDING'')
     = Some ''PAYMENT.CAPTURE.PENDING''
   \<and> orderId_of (sample_event ''PAYMENT.CAPTURE.COMPLETED'' ''ORDER-1'' ''COMPLETED'')
     = Some ''ORDER-1''
   \<and> orderId_of (sample_event ''PAYMENT.CAPTURE.PENDING'' ''ORDER-1'' ''PENDING'') = Some ''ORDER-1''
   \<and> handleWebhook gw_completed 900000
       (sample_event ''PAYMENT.CAPTURE.COMPLETED'' ''ORDER-1'' ''COMPLETED'') db_completed
     = handleWebhook gw_completed 900000
       (sample_event ''PAYMENT.CAPTURE.PENDING'' ''ORDER-1'' ''PENDING'') db_completed"
proof -
  let ?e1 = "sample_event ''PAYMENT.CAPTURE.COMPLETED'' ''ORDER-1'' ''COMPLETED''"
  let ?e2 = "sample_event ''PAYMENT.CAPTURE.PENDING'' ''ORDER-1'' ''PENDING''"
  have a: "eventType_of ?e1 = Some ''PAYMENT.CAPTURE.COMPLETED''"
    "eventType_of ?e2 = Some ''PAYMENT.CAPTURE.PENDING''"
    by (simp_all add: eventType_of_def sample_event_def)
  have b: "''PAYMENT.CAPTURE.COMPLETED'' \<in> set webhookEvents"
    "''PAYMENT.CAPTURE.PENDING'' \<in> set webhookEvents"
    by (simp_all add: webhookEvents_def)
  have c: "orderId_of ?e1 = Some ''ORDER-1''" "orderId_of ?e2 = Some ''ORDER-1''"
    by (simp_all add: orderId_of_def resource_of_def sample_event_def)
  from webhook_uses_refetched_order [OF a(1) b(1) a(2) b(2) c(1) c(2), of gw_completed 900000
         db_completed] a c
  show ?thesis by simp
qed

text \<open>
  The claim as written fails: a notification with an empty related order id and capture id
  CAP-1 sets the row's status from its own \<^verbatim>\<open>resource.status\<close>, with the gateway down.
\<close>

theorem payload_status_counterexample:
  "orderId_of (sample_event ''PAYMENT.CAPTURE.PENDING'' [] ''PENDING'') = Some []
   \<and> map status (payments db_captured) = [''completed'']
   \<and> map status (payments (handleWebhook gw_down 900000
                            (sample_event ''PAYMENT.CAPTURE.PENDING'' [] ''PENDING'')
                            db_captured))
       = [''pending'']"
  by (simp add: eval_defs gw_down_def db_captured_def sample_defs)

subsection \<open>Facts about the query-builder insert\<close>

lemma entity_values_keys:
  "paypalOrderId (entity_values now obj) = None"
  "paypalCaptureId (entity_values now obj) = None"
  "billingPeriod (entity_values now obj) = None"
  "createdAtMinute (entity_values now obj) = None"
  by (simp_all add: entity_values_def default_row_def)

lemma entity_values_never_collide:
  "\<not> unique_violation ps ((entity_values now obj)\<lparr>payment_id := i\<rparr>)"
  unfolding unique_violation_def list_ex_iff collides_def same_order_id_def
    same_capture_id_def same_user_plan_minute_def
  by (simp add: entity_values_keys)

subsection \<open>C7: a webhook that arrives first\<close>

text \<open>
  C7, as the code has it. For a capture webhook with a non-empty order id whose order the
  gateway returns with a status, currency and amount that fit their columns: when no row
  holds the order id and the heuristic finds no candidate, one delivery appends exactly one
  row to the ledger. The row has no user, the amount and currency of the order, and the
  status the gateway reports in lower case (completed when it reports none), which is
  terminal only when the gateway's is. Nothing is raised to the caller.
\<close>

theorem webhook_unmatched_appends_one_row:
  assumes "eventType_of event = Some et" and "et \<in> set webhookEvents"
    and "orderId_of event = Some oid" and "oid \<noteq> []" and "gateway oid = Some ord"
    and "\<forall>q \<in> set (payments d). paypalOrderId q \<noteq> Some oid"
    and "webhook_candidate now ord d = None"
    and "st = toLowerCase (case nullish (case o_capture ord of None \<Rightarrow> None
                                          | Some c \<Rightarrow> cap_status c) (o_status ord) of
                             None \<Rightarrow> ''completed'' | Some s \<Rightarrow> s)"
    and "amt = (case o_pu_amount_value ord of None \<Rightarrow> 0 | Some a \<Rightarrow> a)"
    and "cur = (case o_pu_currency_code ord of None \<Rightarrow> ''USD'' | Some c \<Rightarrow> c)"
    and "length st \<le> 32" and "length cur \<le> 8"
    and "- 999999999999 \<le> amt" and "amt \<le> 999999999999"
  shows "\<exists>row d'. handleWebhook_body gateway now event d = Inr d'
           \<and> handleWebhook gateway now event d = d'
           \<and> payments d' = payments d @ [row]
           \<and> payment_id row = next_id d \<and> user_id row = None
           \<and> status row = st \<and> amount row = amt \<and> currency row = cur"
proof -
  let ?obj = "webhook_insertObj now (Some oid) ord"
  let ?row = "(entity_values now ?obj)\<lparr>payment_id := next_id d\<rparr>"
  let ?d' = "d\<lparr>payments := payments d @ [?row], next_id := Suc (next_id d)\<rparr>"
  have fields: "user_id ?row = None" "status ?row = st" "amount ?row = amt" "currency ?row = cur"
    "payment_id ?row = next_id d"
    by (simp_all add: entity_values_def default_row_def webhook_insertObj_def webhook_status_def
        assms(8-10))
  have fit: "amount_fits ?row" "strings_fit ?row"
    using assms(11-14)
    by (simp_all add: amount_fits_def strings_fit_def entity_values_def default_row_def
        webhook_insertObj_def webhook_status_def assms(8-10))
  have ins: "qb_insert now ?obj d = Inr (?row, ?d')"
    using fit entity_values_never_collide [where ps = "payments d" and now = now and obj = ?obj
                                                   and i = "next_id d"]
    by (simp add: qb_insert_def insert_row_def Let_def)
  have none: "findOne (\<lambda>p. paypalOrderId p = Some oid) d = None"
    using assms(6) by (simp add: findOne_None_iff)
  have body: "handleWebhook_body gateway now event d = Inr ?d'"
    using assms(5,7) none ins
    by (simp add: webhook_with_order [OF assms(1-4)] webhook_by_order_def webhook_unmatched_def)
  then have "handleWebhook gateway now event d = ?d'"
    by (simp add: handleWebhook_def)
  with body fields show ?thesis
    by (intro exI [of _ ?row] exI [of _ ?d']) simp
qed

theorem webhook_unmatched_appends_one_row_witness:
  "eventType_of (sample_event ''PAYMENT.CAPTURE.COMPLETED'' ''ORDER-7'' ''COMPLETED'')
     = Some ''PAYMENT.CAPTURE.COMPLETED''
   \<and> orderId_of (sample_event ''PAYMENT.CAPTURE.COMPLETED'' ''ORDER-7'' ''COMPLETED'')
     = Some ''ORDER-7''
   \<and> gw_completed ''ORDER-7'' = Some (sample_order ''CAP-1'' ''COMPLETED'')
   \<and> webhook_candidate 900000 (sample_order ''CAP-1'' ''COMPLETED'') db_other_plan = None
   \<and> (\<exists>row. payments (handleWebhook gw_completed 900000
                (sample_event ''PAYMENT.CAPTURE.COMPLETED'' ''ORDER-7'' ''COMPLETED'')
                db_other_plan) = payments db_other_plan @ [row]
            \<and> user_id row = None \<and> status row = ''completed'' \<and> amount row = 1299)"
proof -
  let ?ev = "sample_event ''PAYMENT.CAPTURE.COMPLETED'' ''ORDER-7'' ''COMPLETED''"
  let ?ord = "sample_order ''CAP-1'' ''COMPLETED''"
  have a: "eventType_of ?ev = Some ''PAYMENT.CAPTURE.COMPLETED''"
    by (simp add: eventType_of_def sample_event_def)
  have b: "''PAYMENT.CAPTURE.COMPLETED'' \<in> set webhookEvents"
    by (simp add: webhookEvents_def)
  have c: "orderId_of ?ev = Some ''ORDER-7''"
    by (simp add: orderId_of_def resource_of_def sample_event_def)
  have g: "gw_completed ''ORDER-7'' = Some ?ord"
    by (simp add: gw_completed_def)
  have no: "\<forall>q \<in> set (payments db_other_plan). paypalOrderId q \<noteq> Some ''ORDER-7''"
    by (simp add: db_other_plan_def sample_defs)
  have cand: "webhook_candidate 900000 ?ord db_other_plan = None"
    by (simp add: webhook_candidate_def findLatest_def webhook_where_def webhook_minute_def
        db_other_plan_def sample_defs pendingStatuses_def)
  have st: "''completed'' = toLowerCase (case nullish (case o_capture ?ord of None \<Rightarrow> None
                                          | Some c \<Rightarrow> cap_status c) (o_status ?ord) of
                             None \<Rightarrow> ''completed'' | Some s \<Rightarrow> s)"
    by (simp add: sample_defs toLowerCase_def lower_char_def)
  have amt: "(1299::int) = (case o_pu_amount_value ?ord of None \<Rightarrow> 0 | Some a \<Rightarrow> a)"
    by (simp add: sample_defs)
  have cur: "''USD'' = (case o_pu_currency_code ?ord of None \<Rightarrow> ''USD'' | Some c \<Rightarrow> c)"
    by (simp add: sample_defs)
  have "\<exists>row. payments (handleWebhook gw_completed 900000 ?ev db_other_plan)
                 = payments db_other_plan @ [row]
            \<and> user_id row = None \<and> status row = ''completed'' \<and> amount row = 1299"
    using webhook_unmatched_appends_one_row
            [where event = ?ev and et = "''PAYMENT.CAPTURE.COMPLETED''" and oid = "''ORDER-7''"
               and gateway = gw_completed and ord = ?ord and d = db_other_plan and now = 900000
               and st = "''completed''" and amt = 1299 and cur = "''USD''"]
          a b c g no cand st amt cur
    by auto
  with a c g cand show ?thesis by simp
qed

text \<open>
  The claim as written fails: for PAYMENT.CAPTURE.PENDING on an empty table the one row
  inserted is pending, not terminal.
\<close>

theorem orphan_not_terminal_counterexample:
  "map (\<lambda>p. (user_id p, paypalOrderId p, status p))
     (payments (handleWebhook gw_pending 900000
                  (sample_event ''PAYMENT.CAPTURE.PENDING'' ''ORDER-7'' ''PENDING'') (db_of [])))
     = [(None, None, ''pending'')]
   \<and> ''pending'' \<in> set pendingStatuses"
  by (simp add: eval_defs gw_pending_def sample_defs)

subsection \<open>C10: the last resort of an authenticated capture\<close>



subsection \<open>C1: repeated \<^verbatim>\<open>createPendingPayment\<close> calls\<close>

lemmas pending_defs = createPendingPayment_def createPendingPayment_at_def ensureValidUserId_def
  upsert_by_client_temp_id_def pending_finish_def pending_precheck_def findExistingPending_def
  pending_insertObj_def rq_planName_def rq_billing_def rq_created_def rq_hasToken_def
  bucket_where_def invoiceShapeFromRow_def qb_insert_def entity_values_def insert_row_def
  amount_fits_def strings_fit_def findOne_def findLatest_def index_defs pendingStatuses_def
  mapPlanPrice_def toLowerCase_def lower_char_def pgUniqueViolationCode_def Let_def

text \<open>
  C1 says that any number of \<^verbatim>\<open>createPendingPayment\<close> calls for the same user, plan,
  billing period and minute bucket leave exactly one row. The code does not keep to it. Its
  insert object names the columns \<^verbatim>\<open>billing_period\<close> and \<^verbatim>\<open>created_at_minute\<close>, the
  query-builder insert takes no value from those keys, and the stored row has NULL in both.
  So \<^verbatim>\<open>findExistingPending\<close>, which looks for the minute bucket, never finds the row, and
  \<^verbatim>\<open>ux_payments_user_plan_minute\<close> never refuses the next insert. Two calls of user 42 for
  the monthly Pro plan, one after the other at instants 600010 and 600020 of the same
  minute, leave two rows.
\<close>

theorem pending_create_twice_two_rows:
  "rq_userId (sample_request 600010) = rq_userId (sample_request 600020)
   \<and> rq_planName (sample_request 600010) = rq_planName (sample_request 600020)
   \<and> rq_billing (sample_request 600010) = rq_billing (sample_request 600020)
   \<and> minuteBucketOf (rq_created (sample_request 600010))
       = minuteBucketOf (rq_created (sample_request 600020))
   \<and> map (\<lambda>p. (payment_id p, user_id p, plan p, billingPeriod p, createdAtMinute p, status p))
        (payments (snd (createPendingPayment (sample_request 600020)
                          (snd (createPendingPayment (sample_request 600010) (db_of []))))))
       = [(100, Some 42, Some ''Pro'', None, None, ''pending''),
          (101, Some 42, Some ''Pro'', None, None, ''pending'')]"
  by (simp add: pending_defs sample_request_def sample_defs)

end
